theory Spec2Isabelle
  imports Main "HOL-Library.Word"
begin

section \<open>The todo-list view model of \<^verbatim>\<open>src/App.js\<close>\<close>

text \<open>
  The component \<^verbatim>\<open>TodoApp\<close> keeps five state variables and a handful of
  asynchronous handlers that talk to a REST store through \<^verbatim>\<open>fetch\<close>. The
  embedding below follows the source function by function. What lies outside the file
  (the clock, the store's answers) is an argument of the handler that reads it.
\<close>

subsection \<open>Strings\<close>

text \<open>
  A JavaScript string is a sequence of UTF-16 code units. \<open>ascii\<close> writes the string
  literals of the source, which are all ASCII.
\<close>

type_synonym jsstring = "16 word list"

definition ascii :: "string \<Rightarrow> jsstring" where
  "ascii s = map (\<lambda>c. of_nat (of_char c)) s"

text \<open>
  \<^verbatim>\<open>String.prototype.trim\<close> is the language's own: it removes, at both ends,
  the code units that are WhiteSpace or LineTerminator in ECMAScript (TAB, LF, VT, FF,
  CR, SP, NBSP, the Unicode space separators, LS, PS and the BOM).
\<close>

definition isWhiteSpace :: "16 word \<Rightarrow> bool" where
  "isWhiteSpace c \<longleftrightarrow>
     c \<in> set [0x0009, 0x000A, 0x000B, 0x000C, 0x000D, 0x0020, 0x00A0, 0x1680,
              0x2000, 0x2001, 0x2002, 0x2003, 0x2004, 0x2005, 0x2006, 0x2007,
              0x2008, 0x2009, 0x200A, 0x2028, 0x2029, 0x202F, 0x205F, 0x3000, 0xFEFF]"

definition trim :: "jsstring \<Rightarrow> jsstring" where
  "trim s = rev (dropWhile isWhiteSpace (rev (dropWhile isWhiteSpace s)))"

subsection \<open>Data\<close>

text \<open>
  A todo is \<^verbatim>\<open>{id, text, completed}\<close>; its id is a number (\<^verbatim>\<open>Date.now()\<close>
  when this client made it). A group is \<^verbatim>\<open>{id, title, createdAt, todos}\<close>; its
  id is whatever the store assigned, so its type is left open, and \<^verbatim>\<open>createdAt\<close>
  may be absent (the rendering tests for it).
\<close>

record todo =
  todo_id :: int
  todo_text :: jsstring
  completed :: bool

record 'g group =
  group_id :: 'g
  title :: jsstring
  createdAt :: "jsstring option"
  todos :: "todo list"

text \<open>
  The five \<^verbatim>\<open>useState\<close> variables. \<open>filter_st\<close> is the source's
  \<^verbatim>\<open>filter\<close>, a string; \<open>todoInputs\<close> is an object used as a dictionary from
  group id to the text of that group's input box. JavaScript keys an object by the
  string form of the id, which is the id itself when ids are strings, as in the tests;
  the properties an object inherits are left out (a store does not hand out ids such
  as \<^verbatim>\<open>constructor\<close>).
\<close>

record 'g state =
  groups :: "'g group list"
  groupInput :: jsstring
  filter_st :: jsstring
  todoInputs :: "'g \<rightharpoonup> jsstring"
  loading :: bool

definition FILTERS :: "jsstring list" where
  "FILTERS = [ascii ''All'', ascii ''Active'', ascii ''Completed'']"

definition initial_state :: "'g state" where
  "initial_state =
     \<lparr>groups = [], groupInput = [], filter_st = ascii ''All'',
      todoInputs = Map.empty, loading = True\<rparr>"

subsection \<open>The filter and the rendering of one group\<close>

text \<open>
  \<^verbatim>\<open>getFilteredTodos\<close> (lines 84-88) reads the state variable \<^verbatim>\<open>filter\<close>
  through its closure; here the filter is its first argument.
\<close>

definition getFilteredTodos :: "jsstring \<Rightarrow> todo list \<Rightarrow> todo list" where
  "getFilteredTodos f ts =
     (if f = ascii ''Active'' then filter (\<lambda>t. \<not> completed t) ts
      else if f = ascii ''Completed'' then filter (\<lambda>t. completed t) ts
      else ts)"

text \<open>\<^verbatim>\<open>remaining\<close> (line 134) is computed from \<^verbatim>\<open>group.todos\<close>.\<close>

definition remaining :: "'g group \<Rightarrow> nat" where
  "remaining g = length (filter (\<lambda>t. \<not> completed t) (todos g))"

text \<open>
  What the card of one group shows (lines 132-197), as far as the todos go: the list
  items, the message \<^verbatim>\<open>No todos to show.\<close> when the filtered list is empty, and the
  footer \<^verbatim>\<open>{remaining} item(s) left\<close>, rendered only when the group has a todo.
\<close>

record group_card =
  todo_list :: "todo list"
  todo_empty :: bool
  group_footer :: "nat option"

definition render_group :: "jsstring \<Rightarrow> 'g group \<Rightarrow> group_card" where
  "render_group f g =
     (let filteredTodos = getFilteredTodos f (todos g)
      in \<lparr>todo_list = filteredTodos,
          todo_empty = (length filteredTodos = 0),
          group_footer = (if length (todos g) > 0 then Some (remaining g) else None)\<rparr>)"

subsection \<open>Requests, answers and effects\<close>

text \<open>
  The arguments of a \<^verbatim>\<open>fetch\<close> call: the address (\<^verbatim>\<open>API\<close>, or
  \<^verbatim>\<open>`${API}/${groupId}`\<close>), the method, whether the JSON content type header is
  set, and the body. A body is the object given to \<^verbatim>\<open>JSON.stringify\<close>; a field
  that the object does not have is \<open>None\<close>.
\<close>

datatype http_method = GET | POST | PATCH | DELETE

datatype 'g url = API | API_item 'g

record json_body =
  body_title :: "jsstring option"
  body_todos :: "todo list option"
  body_createdAt :: "jsstring option"

record 'g request =
  req_url :: "'g url"
  req_method :: http_method
  req_json :: bool
  req_body :: "json_body option"

text \<open>
  How an awaited promise settles: rejected, or fulfilled with a value. For the handlers
  that go on to \<^verbatim>\<open>res.json()\<close> the value is the parsed answer, and \<open>Rejected\<close>
  stands for a rejection of either promise. The source never reads the status of an
  answer: an answer with an error status whose body parses is a fulfilled one.
\<close>

datatype 'a settled = Rejected | Resolved 'a

text \<open>
  What \<^verbatim>\<open>fetch\<close> is fulfilled with: a \<^verbatim>\<open>Response\<close>, of which the handlers
  could read \<^verbatim>\<open>res.ok\<close> (the status is in the range 200-299) and do call
  \<^verbatim>\<open>res.json()\<close>. \<open>awaited_json\<close> is \<^verbatim>\<open>await fetch(...)\<close> followed by
  \<^verbatim>\<open>await res.json()\<close>, as lines 27-32, 48-53, 63-68 and 75-80 have it: it gives
  the settlement that the handlers below take, and \<^verbatim>\<open>res.ok\<close> has no part in it.
\<close>

record 'a response =
  res_ok :: bool
  res_json :: "'a settled"

definition awaited_json :: "'a response settled \<Rightarrow> 'a settled" where
  "awaited_json fetched = (case fetched of Rejected \<Rightarrow> Rejected | Resolved res \<Rightarrow> res_json res)"

text \<open>
  The effects of a handler, in the order the handler performs them: the request, the
  calls of the state setters, the alert, and the exception that ends an \<^verbatim>\<open>async\<close>
  function whose awaited promise rejects (\<open>FetchFailed\<close>) or that reads a property
  of \<^verbatim>\<open>undefined\<close> (\<open>TypeError\<close>). Nothing catches it.
\<close>

datatype error = TypeError | FetchFailed

datatype 'g event =
    Fetch "'g request"
  | SetGroups "'g group list"
  | SetGroupInput jsstring
  | SetFilter jsstring
  | SetTodoInputs "'g \<rightharpoonup> jsstring"
  | SetLoading bool
  | Alert jsstring
  | Throw error

text \<open>
  A setter called with a value replaces its state variable; the other effects leave the
  five variables alone. \<open>run\<close> applies a handler's effects from left to right.
\<close>

fun apply_event :: "'g state \<Rightarrow> 'g event \<Rightarrow> 'g state" where
  "apply_event s (Fetch q) = s"
| "apply_event s (SetGroups gs) = s\<lparr>groups := gs\<rparr>"
| "apply_event s (SetGroupInput v) = s\<lparr>groupInput := v\<rparr>"
| "apply_event s (SetFilter f) = s\<lparr>filter_st := f\<rparr>"
| "apply_event s (SetTodoInputs m) = s\<lparr>todoInputs := m\<rparr>"
| "apply_event s (SetLoading b) = s\<lparr>loading := b\<rparr>"
| "apply_event s (Alert m) = s"
| "apply_event s (Throw e) = s"

definition run :: "'g state \<Rightarrow> 'g event list \<Rightarrow> 'g state" where
  "run s evs = foldl apply_event s evs"

fun is_Alert :: "'g event \<Rightarrow> bool" where
  "is_Alert (Alert m) = True"
| "is_Alert e = False"

subsection \<open>The handlers\<close>

text \<open>
  Every handler takes the state it was rendered with, since it reads the state variables
  through its closure. The effect on mount (lines 14-20): the \<^verbatim>\<open>catch\<close> turns a
  rejection into the alert, and the \<^verbatim>\<open>finally\<close> runs on both paths.
\<close>

definition useEffect_fetch :: "'g group list settled \<Rightarrow> 'g event list" where
  "useEffect_fetch r =
     Fetch \<lparr>req_url = API, req_method = GET, req_json = False, req_body = None\<rparr> #
     (case r of
        Resolved data \<Rightarrow> [SetGroups data]
      | Rejected \<Rightarrow>
          [Alert (ascii ''Could not connect to json-server. Run: npm run server'')]) @
     [SetLoading False]"

text \<open>
  \<^verbatim>\<open>addGroup\<close> (lines 23-35). \<open>date\<close> is the value of
  \<^verbatim>\<open>new Date().toLocaleDateString(...)\<close> at the call.
\<close>

definition addGroup :: "'g state \<Rightarrow> jsstring \<Rightarrow> 'g group settled \<Rightarrow> 'g event list" where
  "addGroup s date r =
     (let new_title = trim (groupInput s) in
      if new_title = [] then []
      else
        Fetch \<lparr>req_url = API, req_method = POST, req_json = True,
               req_body = Some \<lparr>body_title = Some new_title, body_todos = Some [],
                                 body_createdAt = Some date\<rparr>\<rparr> #
        (case r of
           Rejected \<Rightarrow> [Throw FetchFailed]
         | Resolved saved \<Rightarrow> [SetGroups (groups s @ [saved]), SetGroupInput []]))"

text \<open>\<^verbatim>\<open>deleteGroup\<close> (lines 37-40); the answer's body is not read.\<close>

definition deleteGroup :: "'g state \<Rightarrow> 'g \<Rightarrow> unit settled \<Rightarrow> 'g event list" where
  "deleteGroup s groupId r =
     Fetch \<lparr>req_url = API_item groupId, req_method = DELETE, req_json = False,
            req_body = None\<rparr> #
     (case r of
        Rejected \<Rightarrow> [Throw FetchFailed]
      | Resolved u \<Rightarrow> [SetGroups (filter (\<lambda>g. group_id g \<noteq> groupId) (groups s))])"

text \<open>
  The three todo handlers send the same request (lines 48-52, 63-67, 75-79) and adopt
  the answer the same way (lines 54, 69, 81).
\<close>

definition PATCH_todos :: "'g \<Rightarrow> todo list \<Rightarrow> 'g request" where
  "PATCH_todos groupId updatedTodos =
     \<lparr>req_url = API_item groupId, req_method = PATCH, req_json = True,
      req_body = Some \<lparr>body_title = None, body_todos = Some updatedTodos,
                        body_createdAt = None\<rparr>\<rparr>"

definition replace_group :: "'g \<Rightarrow> 'g group \<Rightarrow> 'g group list \<Rightarrow> 'g group list" where
  "replace_group groupId updated gs = map (\<lambda>g. if group_id g = groupId then updated else g) gs"

text \<open>
  \<^verbatim>\<open>addTodo\<close> (lines 43-56). \<open>now\<close> is the value of \<^verbatim>\<open>Date.now()\<close>.
  \<^verbatim>\<open>todoInputs[groupId] || ""\<close> is the empty string for a missing key. When no
  group has the id, \<^verbatim>\<open>find\<close> gives \<^verbatim>\<open>undefined\<close> and \<^verbatim>\<open>group.todos\<close>
  throws.
\<close>

definition addTodo :: "'g state \<Rightarrow> 'g \<Rightarrow> int \<Rightarrow> 'g group settled \<Rightarrow> 'g event list" where
  "addTodo s groupId now r =
     (let new_text = trim (case todoInputs s groupId of None \<Rightarrow> [] | Some v \<Rightarrow> v) in
      if new_text = [] then []
      else
        case find (\<lambda>g. group_id g = groupId) (groups s) of
          None \<Rightarrow> [Throw TypeError]
        | Some grp \<Rightarrow>
            let updatedTodos =
                  todos grp @ [\<lparr>todo_id = now, todo_text = new_text, completed = False\<rparr>]
            in Fetch (PATCH_todos groupId updatedTodos) #
               (case r of
                  Rejected \<Rightarrow> [Throw FetchFailed]
                | Resolved updated \<Rightarrow>
                    [SetGroups (replace_group groupId updated (groups s)),
                     SetTodoInputs ((todoInputs s)(groupId \<mapsto> []))]))"

text \<open>\<^verbatim>\<open>toggleTodo\<close> (lines 58-70).\<close>

definition toggleTodo :: "'g state \<Rightarrow> 'g \<Rightarrow> int \<Rightarrow> 'g group settled \<Rightarrow> 'g event list" where
  "toggleTodo s groupId todoId r =
     (case find (\<lambda>g. group_id g = groupId) (groups s) of
        None \<Rightarrow> [Throw TypeError]
      | Some grp \<Rightarrow>
          let updatedTodos =
                map (\<lambda>t. if todo_id t = todoId then t\<lparr>completed := \<not> completed t\<rparr> else t)
                  (todos grp)
          in Fetch (PATCH_todos groupId updatedTodos) #
             (case r of
                Rejected \<Rightarrow> [Throw FetchFailed]
              | Resolved updated \<Rightarrow> [SetGroups (replace_group groupId updated (groups s))]))"

text \<open>\<^verbatim>\<open>deleteTodo\<close> (lines 72-82).\<close>

definition deleteTodo :: "'g state \<Rightarrow> 'g \<Rightarrow> int \<Rightarrow> 'g group settled \<Rightarrow> 'g event list" where
  "deleteTodo s groupId todoId r =
     (case find (\<lambda>g. group_id g = groupId) (groups s) of
        None \<Rightarrow> [Throw TypeError]
      | Some grp \<Rightarrow>
          let updatedTodos = filter (\<lambda>t. todo_id t \<noteq> todoId) (todos grp)
          in Fetch (PATCH_todos groupId updatedTodos) #
             (case r of
                Rejected \<Rightarrow> [Throw FetchFailed]
              | Resolved updated \<Rightarrow> [SetGroups (replace_group groupId updated (groups s))]))"

text \<open>
  The handlers of the controls that only set a variable: the group input (line 104),
  a filter button (line 120) and the input of one group (line 159).
\<close>

definition onChange_groupInput :: "jsstring \<Rightarrow> 'g event list" where
  "onChange_groupInput v = [SetGroupInput v]"

definition onClick_filter :: "jsstring \<Rightarrow> 'g event list" where
  "onClick_filter f = [SetFilter f]"

definition onChange_todoInput :: "'g state \<Rightarrow> 'g \<Rightarrow> jsstring \<Rightarrow> 'g event list" where
  "onChange_todoInput s groupId v = [SetTodoInputs ((todoInputs s)(groupId \<mapsto> v))]"

subsection \<open>The invariant on todo ids\<close>

definition unique_todo_ids :: "'g state \<Rightarrow> bool" where
  "unique_todo_ids s = list_all (\<lambda>g. distinct (map todo_id (todos g))) (groups s)"

text \<open>
  The store is not part of the source. What a handler can rely on is stated as a
  condition on the answer: \<open>echoes\<close> says that an answer, when there is one, is a
  group whose todos are the ones the handler's request carried, as the tests' mocked
  answers are. \<open>fresh_todo_id\<close> says that the clock's value is not yet the id of a
  todo of the group that \<^verbatim>\<open>addTodo\<close> looks up.
\<close>

definition sent_todos :: "'g event list \<Rightarrow> todo list option" where
  "sent_todos evs =
     (case evs of
        Fetch q # rest \<Rightarrow> (case req_body q of Some b \<Rightarrow> body_todos b | None \<Rightarrow> None)
      | _ \<Rightarrow> None)"

definition echoes :: "'g event list \<Rightarrow> 'g group settled \<Rightarrow> bool" where
  "echoes evs r =
     (case r of Rejected \<Rightarrow> True | Resolved g \<Rightarrow> sent_todos evs = Some (todos g))"

definition fresh_todo_id :: "'g state \<Rightarrow> 'g \<Rightarrow> int \<Rightarrow> bool" where
  "fresh_todo_id s groupId now =
     (case find (\<lambda>g. group_id g = groupId) (groups s) of
        None \<Rightarrow> True
      | Some grp \<Rightarrow> now \<notin> set (map todo_id (todos grp)))"

subsection \<open>The fixtures of \<^verbatim>\<open>App.test.js\<close>\<close>

definition mockGroup :: "jsstring group" where
  "mockGroup =
     \<lparr>group_id = ascii ''1'', title = ascii ''Test Group'', createdAt = None, todos = []\<rparr>"

definition mockGroupWithTodos :: "jsstring group" where
  "mockGroupWithTodos =
     \<lparr>group_id = ascii ''1'', title = ascii ''Test Group'', createdAt = None,
      todos = [\<lparr>todo_id = 101, todo_text = ascii ''Active Todo'', completed = False\<rparr>,
               \<lparr>todo_id = 102, todo_text = ascii ''Completed Todo'', completed = True\<rparr>]\<rparr>"

definition groupWithOneTodo :: "jsstring group" where
  "groupWithOneTodo =
     mockGroup\<lparr>todos := [\<lparr>todo_id = 201, todo_text = ascii ''Buy groceries'',
                           completed = False\<rparr>]\<rparr>"

definition completedGroup :: "jsstring group" where
  "completedGroup =
     mockGroup\<lparr>todos := [\<lparr>todo_id = 201, todo_text = ascii ''Buy groceries'',
                           completed = True\<rparr>]\<rparr>"

definition newGroup :: "jsstring group" where
  "newGroup =
     \<lparr>group_id = ascii ''2'', title = ascii ''New Group'', createdAt = None, todos = []\<rparr>"

text \<open>
  The states the tests reach before they click: the groups are loaded, then a text is
  typed into the input of one group, or into the group input.
\<close>

definition loaded :: "'g group list \<Rightarrow> 'g state" where
  "loaded gs = run initial_state (useEffect_fetch (Resolved gs))"

definition typed_todo :: "'g group list \<Rightarrow> 'g \<Rightarrow> jsstring \<Rightarrow> 'g state" where
  "typed_todo gs groupId v = run (loaded gs) (onChange_todoInput (loaded gs) groupId v)"

definition typed_group :: "'g group list \<Rightarrow> jsstring \<Rightarrow> 'g state" where
  "typed_group gs v = run (loaded gs) (onChange_groupInput v)"


section \<open>Evaluation and helper lemmas\<close>

lemma ascii_simps:
  "ascii [] = []" "ascii (c # cs) = of_nat (of_char c) # ascii cs"
  by (simp_all add: ascii_def)

lemma ascii_is_Nil: "ascii cs = [] \<longleftrightarrow> cs = []"
  by (simp add: ascii_def)

lemma trim_examples:
  "trim (ascii ''Buy groceries'') = ascii ''Buy groceries''"
  "trim (ascii ''  New Group '') = ascii ''New Group''"
  "trim (ascii '' Buy groceries'') = ascii ''Buy groceries''"
  "trim (ascii ''   '') = []"
  "trim [] = []"
  by (simp_all add: trim_def ascii_def isWhiteSpace_def)

lemma run_simps:
  "run s [] = s"
  "run s (e # evs) = run (apply_event s e) evs"
  by (simp_all add: run_def)

lemma loaded_simps:
  "groups (loaded gs) = gs" "groupInput (loaded gs) = []" "filter_st (loaded gs) = ascii ''All''"
  "todoInputs (loaded gs) = Map.empty" "loading (loaded gs) = False"
  by (simp_all add: loaded_def useEffect_fetch_def run_simps initial_state_def)

lemma typed_todo_simps:
  "groups (typed_todo gs k v) = gs" "groupInput (typed_todo gs k v) = []"
  "filter_st (typed_todo gs k v) = ascii ''All''"
  "todoInputs (typed_todo gs k v) = [k \<mapsto> v]" "loading (typed_todo gs k v) = False"
  by (simp_all add: typed_todo_def onChange_todoInput_def run_simps loaded_simps)

lemma typed_group_simps:
  "groups (typed_group gs v) = gs" "groupInput (typed_group gs v) = v"
  "filter_st (typed_group gs v) = ascii ''All''"
  "todoInputs (typed_group gs v) = Map.empty" "loading (typed_group gs v) = False"
  by (simp_all add: typed_group_def onChange_groupInput_def run_simps loaded_simps)

lemma ascii_filter_names:
  "ascii ''All'' \<noteq> ascii ''Active''" "ascii ''All'' \<noteq> ascii ''Completed''"
  "ascii ''Completed'' \<noteq> ascii ''Active''"
  by (simp_all add: ascii_def)

section \<open>The filter projector\<close>

text \<open>
  Claim C1. The visible todos are a function of the todo sequence and the filter only.
  Under \<open>All\<close> they are the sequence itself; under \<open>Active\<close> they are the todos at
  exactly the positions whose \<open>completed\<close> is false, in their order; under
  \<open>Completed\<close> those at exactly the positions whose \<open>completed\<close> is true, in their
  order.
\<close>

theorem getFilteredTodos_projects:
  "getFilteredTodos (ascii ''All'') ts = ts \<and>
   getFilteredTodos (ascii ''Active'') ts =
     nths ts {i. i < length ts \<and> completed (ts ! i) = False} \<and>
   getFilteredTodos (ascii ''Completed'') ts =
     nths ts {i. i < length ts \<and> completed (ts ! i) = True}"
  by (simp add: getFilteredTodos_def ascii_filter_names filter_eq_nths)

text \<open>
  The fixture with one active and one completed todo, under the three filters, as the
  tests of the filter buttons expect it.
\<close>

lemma getFilteredTodos_fixture:
  "getFilteredTodos (ascii ''All'') (todos mockGroupWithTodos) = todos mockGroupWithTodos"
  "getFilteredTodos (ascii ''Active'') (todos mockGroupWithTodos) =
     [\<lparr>todo_id = 101, todo_text = ascii ''Active Todo'', completed = False\<rparr>]"
  "getFilteredTodos (ascii ''Completed'') (todos mockGroupWithTodos) =
     [\<lparr>todo_id = 102, todo_text = ascii ''Completed Todo'', completed = True\<rparr>]"
  by (simp_all add: getFilteredTodos_def ascii_filter_names mockGroupWithTodos_def)

text \<open>
  Claim C2. The count in the footer of a group is the number of positions of the group's
  whole todo sequence whose \<open>completed\<close> is false, whatever the filter is. (A group
  without todos shows no footer.)
\<close>

theorem footer_remaining_count:
  "group_footer (render_group f g) =
     (if todos g = [] then None
      else Some (card {i. i < length (todos g) \<and> completed (todos g ! i) = False})) \<and>
   group_footer (render_group f g) = group_footer (render_group f' g)"
  by (simp add: render_group_def remaining_def Let_def length_filter_conv_card)

theorem footer_remaining_count_witness:
  "group_footer (render_group (ascii ''All'') mockGroupWithTodos) = Some 1 \<and>
   group_footer (render_group (ascii ''Active'') mockGroupWithTodos) = Some 1 \<and>
   group_footer (render_group (ascii ''Completed'') mockGroupWithTodos) = Some 1"
proof -
  have "group_footer (render_group (ascii ''All'') mockGroupWithTodos) = Some 1"
    by (simp add: render_group_def remaining_def Let_def mockGroupWithTodos_def)
  then show ?thesis
    using footer_remaining_count [THEN conjunct2, of "ascii ''Active''" mockGroupWithTodos "ascii ''All''"]
      footer_remaining_count [THEN conjunct2, of "ascii ''Completed''" mockGroupWithTodos "ascii ''All''"]
    by simp
qed

section \<open>Uniqueness of todo ids\<close>

lemma list_all_replace_group:
  "list_all P gs \<Longrightarrow> P u \<Longrightarrow> list_all P (replace_group k u gs)"
  by (induction gs) (simp_all add: replace_group_def)

lemma find_in_set: "find P xs = Some x \<Longrightarrow> x \<in> set xs"
  by (induction xs) (auto split: if_splits)

lemma todo_id_toggle:
  "map todo_id (map (\<lambda>t. if todo_id t = k then t\<lparr>completed := \<not> completed t\<rparr> else t) ts) =
   map todo_id ts"
  by (induction ts) simp_all

lemma pres_deleteGroup:
  "unique_todo_ids s \<Longrightarrow> unique_todo_ids (run s (deleteGroup s k r))"
  by (cases r) (simp_all add: unique_todo_ids_def deleteGroup_def run_simps list_all_iff)

lemma pres_addGroup:
  "unique_todo_ids s \<Longrightarrow> echoes (addGroup s d r) r \<Longrightarrow> unique_todo_ids (run s (addGroup s d r))"
  by (cases r)
    (auto simp add: unique_todo_ids_def addGroup_def run_simps Let_def echoes_def sent_todos_def)

lemma pres_toggleTodo:
  assumes "unique_todo_ids s" "echoes (toggleTodo s k i r) r"
  shows "unique_todo_ids (run s (toggleTodo s k i r))"
proof (cases "find (\<lambda>g. group_id g = k) (groups s)")
  case None
  with assms show ?thesis by (simp add: toggleTodo_def run_simps)
next
  case (Some grp)
  then have d: "distinct (map todo_id (todos grp))"
    using assms(1) find_in_set[OF Some] by (simp add: unique_todo_ids_def list_all_iff)
  show ?thesis
  proof (cases r)
    case Rejected
    with Some assms show ?thesis by (simp add: toggleTodo_def run_simps Let_def)
  next
    case (Resolved u)
    with Some assms(2) have "todos u =
        map (\<lambda>t. if todo_id t = i then t\<lparr>completed := \<not> completed t\<rparr> else t) (todos grp)"
      by (simp add: toggleTodo_def Let_def echoes_def sent_todos_def PATCH_todos_def)
    then have "map todo_id (todos u) = map todo_id (todos grp)"
      by (simp only: todo_id_toggle)
    with d have "distinct (map todo_id (todos u))" by simp
    with Some Resolved assms(1) show ?thesis
      by (simp add: toggleTodo_def run_simps Let_def unique_todo_ids_def
          list_all_replace_group)
  qed
qed

lemma pres_deleteTodo:
  assumes "unique_todo_ids s" "echoes (deleteTodo s k i r) r"
  shows "unique_todo_ids (run s (deleteTodo s k i r))"
proof (cases "find (\<lambda>g. group_id g = k) (groups s)")
  case None
  with assms show ?thesis by (simp add: deleteTodo_def run_simps)
next
  case (Some grp)
  then have d: "distinct (map todo_id (todos grp))"
    using assms(1) find_in_set[OF Some] by (simp add: unique_todo_ids_def list_all_iff)
  show ?thesis
  proof (cases r)
    case Rejected
    with Some assms show ?thesis by (simp add: deleteTodo_def run_simps Let_def)
  next
    case (Resolved u)
    with Some assms(2) have "todos u = filter (\<lambda>t. todo_id t \<noteq> i) (todos grp)"
      by (simp add: deleteTodo_def Let_def echoes_def sent_todos_def PATCH_todos_def)
    with d have "distinct (map todo_id (todos u))" by (simp add: distinct_map_filter)
    with Some Resolved assms(1) show ?thesis
      by (simp add: deleteTodo_def run_simps Let_def unique_todo_ids_def
          list_all_replace_group)
  qed
qed

lemma pres_addTodo:
  assumes "unique_todo_ids s" "echoes (addTodo s k now r) r" "fresh_todo_id s k now"
  shows "unique_todo_ids (run s (addTodo s k now r))"
proof (cases "trim (case todoInputs s k of None \<Rightarrow> [] | Some v \<Rightarrow> v) = []")
  case True
  with assms show ?thesis by (simp add: addTodo_def run_simps)
next
  case blank: False
  show ?thesis
  proof (cases "find (\<lambda>g. group_id g = k) (groups s)")
    case None
    with assms blank show ?thesis by (simp add: addTodo_def run_simps Let_def)
  next
    case (Some grp)
    then have d: "distinct (map todo_id (todos grp))"
      using assms(1) find_in_set[OF Some] by (simp add: unique_todo_ids_def list_all_iff)
    from Some assms(3) have f: "now \<notin> set (map todo_id (todos grp))"
      by (simp add: fresh_todo_id_def)
    show ?thesis
    proof (cases r)
      case Rejected
      with Some assms blank show ?thesis by (simp add: addTodo_def run_simps Let_def)
    next
      case (Resolved u)
      with Some assms(2) blank have "todos u = todos grp @
          [\<lparr>todo_id = now,
            todo_text = trim (case todoInputs s k of None \<Rightarrow> [] | Some v \<Rightarrow> v),
            completed = False\<rparr>]"
        by (simp add: addTodo_def Let_def echoes_def sent_todos_def PATCH_todos_def)
      then have "map todo_id (todos u) = map todo_id (todos grp) @ [now]" by simp
      with d f have "distinct (map todo_id (todos u))" by simp
      with Some Resolved assms(1) blank show ?thesis
        by (simp add: addTodo_def run_simps Let_def unique_todo_ids_def
            list_all_replace_group)
    qed
  qed
qed

lemma pres_useEffect_fetch:
  "unique_todo_ids s \<Longrightarrow> unique_todo_ids (run s (useEffect_fetch Rejected))"
  "list_all (\<lambda>g. distinct (map todo_id (todos g))) data \<Longrightarrow>
     unique_todo_ids (run s (useEffect_fetch (Resolved data)))"
  by (simp_all add: unique_todo_ids_def useEffect_fetch_def run_simps)

text \<open>
  Claim C3 as stated fails. One group holds a todo with id 201, its ids distinct; a text
  is typed and \<^verbatim>\<open>addTodo\<close> runs while \<^verbatim>\<open>Date.now()\<close> is 201; the store
  answers with the todos it was sent. The group then holds two todos with id 201.
\<close>

theorem addTodo_same_millisecond_counterexample:
  "unique_todo_ids (typed_todo [groupWithOneTodo] (ascii ''1'') (ascii ''Buy milk'')) \<and>
   echoes (addTodo (typed_todo [groupWithOneTodo] (ascii ''1'') (ascii ''Buy milk''))
             (ascii ''1'') 201
             (Resolved (groupWithOneTodo\<lparr>todos := todos groupWithOneTodo @
                [\<lparr>todo_id = 201, todo_text = ascii ''Buy milk'', completed = False\<rparr>]\<rparr>)))
     (Resolved (groupWithOneTodo\<lparr>todos := todos groupWithOneTodo @
                [\<lparr>todo_id = 201, todo_text = ascii ''Buy milk'', completed = False\<rparr>]\<rparr>)) \<and>
   \<not> unique_todo_ids
     (run (typed_todo [groupWithOneTodo] (ascii ''1'') (ascii ''Buy milk''))
        (addTodo (typed_todo [groupWithOneTodo] (ascii ''1'') (ascii ''Buy milk''))
           (ascii ''1'') 201
           (Resolved (groupWithOneTodo\<lparr>todos := todos groupWithOneTodo @
              [\<lparr>todo_id = 201, todo_text = ascii ''Buy milk'', completed = False\<rparr>]\<rparr>))))"
  by (simp add: unique_todo_ids_def echoes_def sent_todos_def addTodo_def typed_todo_simps
      trim_def isWhiteSpace_def mockGroup_def groupWithOneTodo_def PATCH_todos_def Let_def
      ascii_def run_simps replace_group_def)

text \<open>
  Claim C3, amended. From a state whose groups each have pairwise distinct todo ids,
  every handler leads to such a state again, provided that the store's answer carries
  the todos the request sent (for the initial load: that the loaded groups have distinct
  todo ids) and, for \<^verbatim>\<open>addTodo\<close>, that the current time in milliseconds is not
  already the id of a todo of the group. Nothing in the source makes the new id differ
  from the existing ones.
\<close>

theorem todo_ids_stay_unique:
  assumes "unique_todo_ids s"
  shows "unique_todo_ids (run s (deleteGroup s groupId r0)) \<and>
    (echoes (addGroup s date r) r \<longrightarrow> unique_todo_ids (run s (addGroup s date r))) \<and>
    (echoes (toggleTodo s groupId todoId r) r \<longrightarrow>
       unique_todo_ids (run s (toggleTodo s groupId todoId r))) \<and>
    (echoes (deleteTodo s groupId todoId r) r \<longrightarrow>
       unique_todo_ids (run s (deleteTodo s groupId todoId r))) \<and>
    (echoes (addTodo s groupId now r) r \<and> fresh_todo_id s groupId now \<longrightarrow>
       unique_todo_ids (run s (addTodo s groupId now r))) \<and>
    unique_todo_ids (run s (useEffect_fetch Rejected)) \<and>
    (list_all (\<lambda>g. distinct (map todo_id (todos g))) data \<longrightarrow>
       unique_todo_ids (run s (useEffect_fetch (Resolved data)))) \<and>
    unique_todo_ids (run s (onChange_groupInput v)) \<and>
    unique_todo_ids (run s (onClick_filter f)) \<and>
    unique_todo_ids (run s (onChange_todoInput s groupId v))"
proof -
  have "unique_todo_ids (run s (onChange_groupInput v))"
    "unique_todo_ids (run s (onClick_filter f))"
    "unique_todo_ids (run s (onChange_todoInput s groupId v))"
    using assms
    by (simp_all add: unique_todo_ids_def run_simps onChange_groupInput_def
        onClick_filter_def onChange_todoInput_def)
  with assms show ?thesis
    by (simp add: pres_deleteGroup pres_addGroup pres_toggleTodo pres_deleteTodo pres_addTodo
        pres_useEffect_fetch)
qed

theorem todo_ids_stay_unique_witness:
  "unique_todo_ids (typed_todo [mockGroup] (ascii ''1'') (ascii ''Buy groceries'')) \<and>
   echoes (addTodo (typed_todo [mockGroup] (ascii ''1'') (ascii ''Buy groceries''))
             (ascii ''1'') 201 (Resolved groupWithOneTodo)) (Resolved groupWithOneTodo) \<and>
   fresh_todo_id (typed_todo [mockGroup] (ascii ''1'') (ascii ''Buy groceries''))
     (ascii ''1'') 201 \<and>
   unique_todo_ids
     (run (typed_todo [mockGroup] (ascii ''1'') (ascii ''Buy groceries''))
        (addTodo (typed_todo [mockGroup] (ascii ''1'') (ascii ''Buy groceries''))
           (ascii ''1'') 201 (Resolved groupWithOneTodo))) \<and>
   unique_todo_ids (loaded [groupWithOneTodo]) \<and>
   echoes (toggleTodo (loaded [groupWithOneTodo]) (ascii ''1'') 201 (Resolved completedGroup))
     (Resolved completedGroup) \<and>
   unique_todo_ids
     (run (loaded [groupWithOneTodo])
        (toggleTodo (loaded [groupWithOneTodo]) (ascii ''1'') 201 (Resolved completedGroup))) \<and>
   echoes (deleteTodo (loaded [groupWithOneTodo]) (ascii ''1'') 201 (Resolved mockGroup))
     (Resolved mockGroup) \<and>
   unique_todo_ids
     (run (loaded [groupWithOneTodo])
        (deleteTodo (loaded [groupWithOneTodo]) (ascii ''1'') 201 (Resolved mockGroup))) \<and>
   unique_todo_ids (typed_group [groupWithOneTodo] (ascii ''  New Group '')) \<and>
   echoes (addGroup (typed_group [groupWithOneTodo] (ascii ''  New Group ''))
             (ascii ''Jan 5, 2024'') (Resolved newGroup)) (Resolved newGroup) \<and>
   unique_todo_ids
     (run (typed_group [groupWithOneTodo] (ascii ''  New Group ''))
        (addGroup (typed_group [groupWithOneTodo] (ascii ''  New Group ''))
           (ascii ''Jan 5, 2024'') (Resolved newGroup))) \<and>
   list_all (\<lambda>g. distinct (map todo_id (todos g))) [mockGroupWithTodos] \<and>
   unique_todo_ids (run (loaded [groupWithOneTodo]) (useEffect_fetch (Resolved [mockGroupWithTodos])))"
proof -
  let ?s = "typed_todo [mockGroup] (ascii ''1'') (ascii ''Buy groceries'')"
  let ?l = "loaded [groupWithOneTodo]"
  let ?g = "typed_group [groupWithOneTodo] (ascii ''  New Group '')"
  have u: "unique_todo_ids ?s"
    by (simp add: unique_todo_ids_def typed_todo_simps mockGroup_def)
  have e: "echoes (addTodo ?s (ascii ''1'') 201 (Resolved groupWithOneTodo))
             (Resolved groupWithOneTodo)"
    by (simp add: echoes_def sent_todos_def addTodo_def typed_todo_simps trim_examples
        mockGroup_def groupWithOneTodo_def PATCH_todos_def Let_def ascii_is_Nil)
  have f: "fresh_todo_id ?s (ascii ''1'') 201"
    by (simp add: fresh_todo_id_def typed_todo_simps mockGroup_def)
  have ul: "unique_todo_ids ?l"
    by (simp add: unique_todo_ids_def loaded_simps mockGroup_def groupWithOneTodo_def)
  have et: "echoes (toggleTodo ?l (ascii ''1'') 201 (Resolved completedGroup))
              (Resolved completedGroup)"
    by (simp add: echoes_def sent_todos_def toggleTodo_def loaded_simps
        mockGroup_def groupWithOneTodo_def completedGroup_def PATCH_todos_def Let_def)
  have ed: "echoes (deleteTodo ?l (ascii ''1'') 201 (Resolved mockGroup)) (Resolved mockGroup)"
    by (simp add: echoes_def sent_todos_def deleteTodo_def loaded_simps
        mockGroup_def groupWithOneTodo_def PATCH_todos_def Let_def)
  have ug: "unique_todo_ids ?g"
    by (simp add: unique_todo_ids_def typed_group_simps mockGroup_def groupWithOneTodo_def)
  have eg: "echoes (addGroup ?g (ascii ''Jan 5, 2024'') (Resolved newGroup)) (Resolved newGroup)"
    by (simp add: echoes_def sent_todos_def addGroup_def typed_group_simps trim_examples
        newGroup_def Let_def ascii_is_Nil)
  have d: "list_all (\<lambda>g. distinct (map todo_id (todos g))) [mockGroupWithTodos]"
    by (simp add: mockGroupWithTodos_def)
  note a = todo_ids_stay_unique [OF u, where groupId = "ascii ''1''"
      and r = "Resolved groupWithOneTodo" and now = 201]
  note b = todo_ids_stay_unique [OF ul, where groupId = "ascii ''1''" and todoId = 201
      and r = "Resolved completedGroup"]
  note c = todo_ids_stay_unique [OF ul, where groupId = "ascii ''1''" and todoId = 201
      and r = "Resolved mockGroup"]
  note g = todo_ids_stay_unique [OF ug, where date = "ascii ''Jan 5, 2024''"
      and r = "Resolved newGroup"]
  note l = todo_ids_stay_unique [OF ul, where data = "[mockGroupWithTodos]"]
  from a e f have 1: "unique_todo_ids (run ?s (addTodo ?s (ascii ''1'') 201 (Resolved groupWithOneTodo)))"
    by blast
  from b et have 2: "unique_todo_ids (run ?l (toggleTodo ?l (ascii ''1'') 201 (Resolved completedGroup)))"
    by blast
  from c ed have 3: "unique_todo_ids (run ?l (deleteTodo ?l (ascii ''1'') 201 (Resolved mockGroup)))"
    by blast
  from g eg have 4: "unique_todo_ids (run ?g (addGroup ?g (ascii ''Jan 5, 2024'') (Resolved newGroup)))"
    by blast
  from l d have 5: "unique_todo_ids (run ?l (useEffect_fetch (Resolved [mockGroupWithTodos])))"
    by blast
  from u e f ul et ed ug eg d 1 2 3 4 5 show ?thesis by blast
qed

section \<open>The handlers, one by one\<close>

text \<open>
  Claim C4 as stated fails for a request that fails with an answer. The group input holds
  a title; the store answers the POST with an error status and a body that parses. The
  handler does not read the status: it appends the parsed body to \<open>groups\<close> and
  clears \<open>groupInput\<close>.
\<close>

theorem addGroup_error_status_counterexample:
  "res_ok \<lparr>res_ok = False, res_json = Resolved newGroup\<rparr> = False \<and>
   groups (run (typed_group [mockGroup] (ascii ''  New Group ''))
     (addGroup (typed_group [mockGroup] (ascii ''  New Group '')) (ascii ''Jan 5, 2024'')
        (awaited_json (Resolved \<lparr>res_ok = False, res_json = Resolved newGroup\<rparr>)))) =
     [mockGroup, newGroup] \<and>
   groups (typed_group [mockGroup] (ascii ''  New Group '')) = [mockGroup] \<and>
   groupInput (run (typed_group [mockGroup] (ascii ''  New Group ''))
     (addGroup (typed_group [mockGroup] (ascii ''  New Group '')) (ascii ''Jan 5, 2024'')
        (awaited_json (Resolved \<lparr>res_ok = False, res_json = Resolved newGroup\<rparr>)))) = [] \<and>
   groupInput (typed_group [mockGroup] (ascii ''  New Group '')) = ascii ''  New Group ''"
  by (simp add: awaited_json_def addGroup_def Let_def run_simps typed_group_simps
      trim_examples ascii_is_Nil)

text \<open>
  Claim C4, amended. With a group input that does not trim to the empty string,
  \<^verbatim>\<open>addGroup\<close> sends the request. When the fetch is fulfilled and the body of the
  answer parses, whatever the status of the answer is, the handler first sets
  \<open>groups\<close> to the old groups followed by the parsed body and only then sets
  \<open>groupInput\<close> to the empty string; after the request alone nothing has changed. When
  the fetch is rejected, or the body does not parse, the handler ends with the exception,
  and \<open>groups\<close> and \<open>groupInput\<close> are as before.
\<close>

theorem addGroup_adopts_then_clears:
  assumes "trim (groupInput s) \<noteq> []"
  shows "addGroup s date (awaited_json (Resolved \<lparr>res_ok = ok, res_json = Resolved saved\<rparr>)) =
      [Fetch \<lparr>req_url = API, req_method = POST, req_json = True,
              req_body = Some \<lparr>body_title = Some (trim (groupInput s)), body_todos = Some [],
                                body_createdAt = Some date\<rparr>\<rparr>,
       SetGroups (groups s @ [saved]),
       SetGroupInput []] \<and>
    run s (take 1 (addGroup s date
      (awaited_json (Resolved \<lparr>res_ok = ok, res_json = Resolved saved\<rparr>)))) = s \<and>
    run s (take 2 (addGroup s date
      (awaited_json (Resolved \<lparr>res_ok = ok, res_json = Resolved saved\<rparr>)))) =
      s\<lparr>groups := groups s @ [saved]\<rparr> \<and>
    run s (addGroup s date
      (awaited_json (Resolved \<lparr>res_ok = ok, res_json = Resolved saved\<rparr>))) =
      s\<lparr>groups := groups s @ [saved], groupInput := []\<rparr> \<and>
    addGroup s date (awaited_json Rejected) =
      [Fetch \<lparr>req_url = API, req_method = POST, req_json = True,
              req_body = Some \<lparr>body_title = Some (trim (groupInput s)), body_todos = Some [],
                                body_createdAt = Some date\<rparr>\<rparr>,
       Throw FetchFailed] \<and>
    run s (addGroup s date (awaited_json Rejected)) = s \<and>
    addGroup s date (awaited_json (Resolved \<lparr>res_ok = ok, res_json = Rejected\<rparr>)) =
      [Fetch \<lparr>req_url = API, req_method = POST, req_json = True,
              req_body = Some \<lparr>body_title = Some (trim (groupInput s)), body_todos = Some [],
                                body_createdAt = Some date\<rparr>\<rparr>,
       Throw FetchFailed] \<and>
    run s (addGroup s date (awaited_json (Resolved \<lparr>res_ok = ok, res_json = Rejected\<rparr>))) = s"
  using assms by (simp add: addGroup_def awaited_json_def Let_def run_simps)

theorem addGroup_adopts_then_clears_witness:
  "trim (groupInput (typed_group [mockGroup] (ascii ''  New Group ''))) \<noteq> [] \<and>
   groups (run (typed_group [mockGroup] (ascii ''  New Group ''))
     (addGroup (typed_group [mockGroup] (ascii ''  New Group '')) (ascii ''Jan 5, 2024'')
        (awaited_json (Resolved \<lparr>res_ok = True, res_json = Resolved newGroup\<rparr>)))) =
     [mockGroup, newGroup] \<and>
   groupInput (run (typed_group [mockGroup] (ascii ''  New Group ''))
     (addGroup (typed_group [mockGroup] (ascii ''  New Group '')) (ascii ''Jan 5, 2024'')
        (awaited_json (Resolved \<lparr>res_ok = True, res_json = Resolved newGroup\<rparr>)))) = [] \<and>
   groupInput (run (typed_group [mockGroup] (ascii ''  New Group ''))
     (addGroup (typed_group [mockGroup] (ascii ''  New Group '')) (ascii ''Jan 5, 2024'')
        (awaited_json Rejected))) = ascii ''  New Group '' \<and>
   groups (run (typed_group [mockGroup] (ascii ''  New Group ''))
     (addGroup (typed_group [mockGroup] (ascii ''  New Group '')) (ascii ''Jan 5, 2024'')
        (awaited_json Rejected))) = [mockGroup] \<and>
   groupInput (run (typed_group [mockGroup] (ascii ''  New Group ''))
     (addGroup (typed_group [mockGroup] (ascii ''  New Group '')) (ascii ''Jan 5, 2024'')
        (awaited_json (Resolved \<lparr>res_ok = False, res_json = Rejected\<rparr>)))) =
     ascii ''  New Group ''"
proof -
  let ?s = "typed_group [mockGroup] (ascii ''  New Group '')"
  let ?d = "ascii ''Jan 5, 2024''"
  have h: "trim (groupInput ?s) \<noteq> []"
    by (simp add: typed_group_simps trim_examples ascii_is_Nil)
  note th = addGroup_adopts_then_clears [OF h, of ?d True newGroup]
  note tf = addGroup_adopts_then_clears [OF h, of ?d False newGroup]
  from th have a: "run ?s (addGroup ?s ?d
        (awaited_json (Resolved \<lparr>res_ok = True, res_json = Resolved newGroup\<rparr>))) =
      ?s\<lparr>groups := groups ?s @ [newGroup], groupInput := []\<rparr>"
    by (elim conjE)
  from th have b: "run ?s (addGroup ?s ?d (awaited_json Rejected)) = ?s"
    by (elim conjE)
  from tf have c: "run ?s (addGroup ?s ?d
        (awaited_json (Resolved \<lparr>res_ok = False, res_json = Rejected\<rparr>))) = ?s"
    by (elim conjE)
  from h show ?thesis
    by (simp add: a b c typed_group_simps)
qed

text \<open>
  Claim C5. When the group input trims to the empty string, \<^verbatim>\<open>addGroup\<close> has no
  effect at all: no request, no setter, the state as before. The same holds of
  \<^verbatim>\<open>addTodo\<close> when the input of the group (the empty string when the group has
  none) trims to the empty string.
\<close>

theorem blank_input_is_noop:
  "(trim (groupInput s) = [] \<longrightarrow>
      addGroup s date r = [] \<and> run s (addGroup s date r) = s) \<and>
   (trim (case todoInputs s groupId of None \<Rightarrow> [] | Some v \<Rightarrow> v) = [] \<longrightarrow>
      addTodo s groupId now r' = [] \<and> run s (addTodo s groupId now r') = s)"
  by (simp add: addGroup_def addTodo_def run_simps)

theorem blank_input_is_noop_witness:
  "trim (groupInput (typed_group [mockGroup] (ascii ''   ''))) = [] \<and>
   addGroup (typed_group [mockGroup] (ascii ''   '')) (ascii ''Jan 5, 2024'')
     (Resolved mockGroup) = [] \<and>
   trim (case todoInputs (loaded [mockGroup]) (ascii ''1'') of None \<Rightarrow> [] | Some v \<Rightarrow> v) = [] \<and>
   addTodo (loaded [mockGroup]) (ascii ''1'') 201 (Resolved groupWithOneTodo) = []"
proof -
  have h1: "trim (groupInput (typed_group [mockGroup] (ascii ''   ''))) = []"
    by (simp add: typed_group_simps trim_examples)
  have h2: "trim (case todoInputs (loaded [mockGroup]) (ascii ''1'') of
                    None \<Rightarrow> [] | Some v \<Rightarrow> v) = []"
    by (simp add: loaded_simps trim_examples)
  from blank_input_is_noop [where s = "typed_group [mockGroup] (ascii ''   '')"
      and date = "ascii ''Jan 5, 2024''" and r = "Resolved mockGroup"] h1
    blank_input_is_noop [where s = "loaded [mockGroup]" and groupId = "ascii ''1''"
      and now = 201 and r' = "Resolved groupWithOneTodo"] h2
  show ?thesis by simp
qed

text \<open>
  Claim C6. Let \<^verbatim>\<open>addTodo\<close> find a group with the given id (the first one, which is
  the only one when group ids are distinct), and let the group's input not trim to the
  empty string. The request is a PATCH to that id whose body has the field \<open>todos\<close>
  only: the group's todos followed by one todo with the current time as id, the trimmed
  input as text, and \<open>completed\<close> false. With the answer, \<open>groups\<close> keeps its length
  and holds the answered group at the positions whose group has that id and the old group
  elsewhere; the group's entry of \<open>todoInputs\<close> is the empty string and the other
  entries, \<open>groupInput\<close>, the filter and \<open>loading\<close> are as before.
\<close>

theorem addTodo_appends_and_adopts:
  assumes "find (\<lambda>g. group_id g = groupId) (groups s) = Some grp"
    and "trim (case todoInputs s groupId of None \<Rightarrow> [] | Some v \<Rightarrow> v) \<noteq> []"
  shows "addTodo s groupId now (Resolved updated) =
      [Fetch \<lparr>req_url = API_item groupId, req_method = PATCH, req_json = True,
              req_body = Some \<lparr>body_title = None,
                body_todos = Some (todos grp @
                  [\<lparr>todo_id = now,
                    todo_text = trim (case todoInputs s groupId of None \<Rightarrow> [] | Some v \<Rightarrow> v),
                    completed = False\<rparr>]),
                body_createdAt = None\<rparr>\<rparr>,
       SetGroups (replace_group groupId updated (groups s)),
       SetTodoInputs ((todoInputs s)(groupId \<mapsto> []))] \<and>
    length (groups (run s (addTodo s groupId now (Resolved updated)))) = length (groups s) \<and>
    (\<forall>i < length (groups s).
       groups (run s (addTodo s groupId now (Resolved updated))) ! i =
         (if group_id (groups s ! i) = groupId then updated else groups s ! i)) \<and>
    todoInputs (run s (addTodo s groupId now (Resolved updated))) groupId = Some [] \<and>
    (\<forall>k. k \<noteq> groupId \<longrightarrow>
       todoInputs (run s (addTodo s groupId now (Resolved updated))) k = todoInputs s k) \<and>
    groupInput (run s (addTodo s groupId now (Resolved updated))) = groupInput s \<and>
    filter_st (run s (addTodo s groupId now (Resolved updated))) = filter_st s \<and>
    loading (run s (addTodo s groupId now (Resolved updated))) = loading s"
  using assms
  by (simp add: addTodo_def Let_def PATCH_todos_def run_simps replace_group_def)

theorem addTodo_appends_and_adopts_witness:
  "find (\<lambda>g. group_id g = ascii ''1'')
     (groups (typed_todo [mockGroup] (ascii ''1'') (ascii '' Buy groceries''))) = Some mockGroup \<and>
   trim (case todoInputs (typed_todo [mockGroup] (ascii ''1'') (ascii '' Buy groceries''))
                (ascii ''1'') of None \<Rightarrow> [] | Some v \<Rightarrow> v) = ascii ''Buy groceries'' \<and>
   sent_todos (addTodo (typed_todo [mockGroup] (ascii ''1'') (ascii '' Buy groceries''))
      (ascii ''1'') 201 (Resolved groupWithOneTodo)) = Some (todos groupWithOneTodo) \<and>
   groups (run (typed_todo [mockGroup] (ascii ''1'') (ascii '' Buy groceries''))
      (addTodo (typed_todo [mockGroup] (ascii ''1'') (ascii '' Buy groceries''))
      (ascii ''1'') 201 (Resolved groupWithOneTodo))) = [groupWithOneTodo] \<and>
   todoInputs (run (typed_todo [mockGroup] (ascii ''1'') (ascii '' Buy groceries''))
      (addTodo (typed_todo [mockGroup] (ascii ''1'') (ascii '' Buy groceries''))
      (ascii ''1'') 201 (Resolved groupWithOneTodo))) (ascii ''1'') = Some [] \<and>
   todoInputs (run (typed_todo [mockGroup] (ascii ''1'') (ascii '' Buy groceries''))
      (addTodo (typed_todo [mockGroup] (ascii ''1'') (ascii '' Buy groceries''))
      (ascii ''1'') 201 (Resolved groupWithOneTodo))) (ascii ''2'') = None"
proof -
  let ?s = "typed_todo [mockGroup] (ascii ''1'') (ascii '' Buy groceries'')"
  have h1: "find (\<lambda>g. group_id g = ascii ''1'') (groups ?s) = Some mockGroup"
    by (simp add: typed_todo_simps mockGroup_def)
  have t: "trim (case todoInputs ?s (ascii ''1'') of None \<Rightarrow> [] | Some v \<Rightarrow> v) =
      ascii ''Buy groceries''"
    by (simp add: typed_todo_simps trim_examples)
  then have h2: "trim (case todoInputs ?s (ascii ''1'') of None \<Rightarrow> [] | Some v \<Rightarrow> v) \<noteq> []"
    by (simp add: ascii_is_Nil)
  from addTodo_appends_and_adopts [OF h1 h2, of 201 groupWithOneTodo] h1 t
  show ?thesis
    by (simp add: sent_todos_def run_simps replace_group_def typed_todo_simps
        mockGroup_def groupWithOneTodo_def ascii_simps)
qed

text \<open>
  Claim C7. When \<^verbatim>\<open>toggleTodo\<close> finds the group, the todos it sends have the length
  of the group's todos; at each position, a todo whose id is the given one keeps its id
  and text and has \<open>completed\<close> negated, and any other todo is the same as before.
\<close>

theorem toggleTodo_candidate:
  assumes "find (\<lambda>g. group_id g = groupId) (groups s) = Some grp"
  shows "\<exists>cand. sent_todos (toggleTodo s groupId todoId r) = Some cand \<and>
      length cand = length (todos grp) \<and>
      (\<forall>i < length (todos grp).
         (todo_id (todos grp ! i) = todoId \<longrightarrow>
            cand ! i = \<lparr>todo_id = todo_id (todos grp ! i),
                        todo_text = todo_text (todos grp ! i),
                        completed = (\<not> completed (todos grp ! i))\<rparr>) \<and>
         (todo_id (todos grp ! i) \<noteq> todoId \<longrightarrow> cand ! i = todos grp ! i))"
  using assms
  by (simp add: toggleTodo_def Let_def sent_todos_def PATCH_todos_def)

theorem toggleTodo_candidate_witness:
  "find (\<lambda>g. group_id g = ascii ''1'') (groups (loaded [mockGroupWithTodos])) =
     Some mockGroupWithTodos \<and>
   sent_todos (toggleTodo (loaded [mockGroupWithTodos]) (ascii ''1'') 101 Rejected) =
     Some [\<lparr>todo_id = 101, todo_text = ascii ''Active Todo'', completed = True\<rparr>,
           \<lparr>todo_id = 102, todo_text = ascii ''Completed Todo'', completed = True\<rparr>]"
proof -
  let ?s = "loaded [mockGroupWithTodos]"
  have h: "find (\<lambda>g. group_id g = ascii ''1'') (groups ?s) = Some mockGroupWithTodos"
    by (simp add: loaded_simps mockGroupWithTodos_def)
  from toggleTodo_candidate [OF h, of 101 Rejected]
  obtain cand where c: "sent_todos (toggleTodo ?s (ascii ''1'') 101 Rejected) = Some cand"
    and l: "length cand = length (todos mockGroupWithTodos)"
    and e: "\<forall>i < length (todos mockGroupWithTodos).
         (todo_id (todos mockGroupWithTodos ! i) = 101 \<longrightarrow>
            cand ! i = \<lparr>todo_id = todo_id (todos mockGroupWithTodos ! i),
                        todo_text = todo_text (todos mockGroupWithTodos ! i),
                        completed = (\<not> completed (todos mockGroupWithTodos ! i))\<rparr>) \<and>
         (todo_id (todos mockGroupWithTodos ! i) \<noteq> 101 \<longrightarrow>
            cand ! i = todos mockGroupWithTodos ! i)"
    by blast
  from l have l2: "length cand = 2" by (simp add: mockGroupWithTodos_def)
  from e [rule_format, of 0] have c0:
    "cand ! 0 = \<lparr>todo_id = 101, todo_text = ascii ''Active Todo'', completed = True\<rparr>"
    by (simp add: mockGroupWithTodos_def)
  from e [rule_format, of 1] have c1:
    "cand ! 1 = \<lparr>todo_id = 102, todo_text = ascii ''Completed Todo'', completed = True\<rparr>"
    by (simp add: mockGroupWithTodos_def)
  from l2 obtain a b where ab: "cand = [a, b]"
    by (cases cand; cases "tl cand"; cases "tl (tl cand)") auto
  with c0 c1 c h show ?thesis by simp
qed

text \<open>
  Claim C8. \<^verbatim>\<open>deleteGroup\<close> sends a DELETE to the address of the given id. When the
  request is fulfilled, it then sets \<open>groups\<close> to the groups at exactly the positions
  whose id differs from the given one, in their order; after the request alone nothing
  has changed. When the request is rejected, the handler ends with the exception and
  nothing changes.
\<close>

theorem deleteGroup_removes_after_settling:
  "deleteGroup s groupId (Resolved u) =
     [Fetch \<lparr>req_url = API_item groupId, req_method = DELETE, req_json = False,
             req_body = None\<rparr>,
      SetGroups (nths (groups s)
        {i. i < length (groups s) \<and> group_id (groups s ! i) \<noteq> groupId})] \<and>
   run s (take 1 (deleteGroup s groupId (Resolved u))) = s \<and>
   run s (deleteGroup s groupId (Resolved u)) =
     s\<lparr>groups := nths (groups s)
        {i. i < length (groups s) \<and> group_id (groups s ! i) \<noteq> groupId}\<rparr> \<and>
   deleteGroup s groupId Rejected =
     [Fetch \<lparr>req_url = API_item groupId, req_method = DELETE, req_json = False,
             req_body = None\<rparr>,
      Throw FetchFailed] \<and>
   run s (deleteGroup s groupId Rejected) = s"
  by (simp add: deleteGroup_def run_simps filter_eq_nths)

theorem deleteGroup_removes_after_settling_witness:
  "groups (run (loaded [mockGroup, newGroup])
     (deleteGroup (loaded [mockGroup, newGroup]) (ascii ''1'') (Resolved ()))) = [newGroup]"
proof -
  have "filter (\<lambda>g. group_id g \<noteq> ascii ''1'') [mockGroup, newGroup] = [newGroup]"
    by (simp add: mockGroup_def newGroup_def ascii_def)
  then show ?thesis
    using deleteGroup_removes_after_settling [of "loaded [mockGroup, newGroup]" "ascii ''1''" "()"]
    by (simp add: run_simps loaded_simps filter_eq_nths)
qed

text \<open>
  Claim C9. The effect on mount ends by setting \<open>loading\<close> to false, whether the fetch
  is fulfilled or rejected. Fulfilled, it sets \<open>groups\<close> to the answered list and
  raises no alert. Rejected, it raises exactly one alert and \<open>groups\<close> is still the
  empty list.
\<close>

theorem initial_load_settles:
  "useEffect_fetch (Resolved data) =
     [Fetch \<lparr>req_url = API, req_method = GET, req_json = False, req_body = None\<rparr>,
      SetGroups data, SetLoading False] \<and>
   useEffect_fetch Rejected =
     [Fetch \<lparr>req_url = API, req_method = GET, req_json = False, req_body = None\<rparr>,
      Alert (ascii ''Could not connect to json-server. Run: npm run server''),
      SetLoading False] \<and>
   loading (run s (useEffect_fetch r)) = False \<and>
   run initial_state (useEffect_fetch (Resolved data)) =
     initial_state\<lparr>groups := data, loading := False\<rparr> \<and>
   filter is_Alert (useEffect_fetch (Resolved data)) = [] \<and>
   run initial_state (useEffect_fetch Rejected) = initial_state\<lparr>loading := False\<rparr> \<and>
   length (filter is_Alert (useEffect_fetch Rejected)) = 1 \<and>
   groups (run initial_state (useEffect_fetch Rejected)) = []"
  by (cases r) (simp_all add: useEffect_fetch_def run_simps initial_state_def)

text \<open>
  Claim C10. \<^verbatim>\<open>deleteGroup\<close> leaves \<open>groupInput\<close>, the filter, \<open>loading\<close> and
  the whole of \<open>todoInputs\<close> as they were, however the request settles: the entry of
  the deleted group stays.
\<close>

theorem deleteGroup_keeps_inputs:
  "groupInput (run s (deleteGroup s groupId r)) = groupInput s \<and>
   filter_st (run s (deleteGroup s groupId r)) = filter_st s \<and>
   loading (run s (deleteGroup s groupId r)) = loading s \<and>
   todoInputs (run s (deleteGroup s groupId r)) = todoInputs s \<and>
   todoInputs (run s (deleteGroup s groupId r)) groupId = todoInputs s groupId \<and>
   dom (todoInputs (run s (deleteGroup s groupId r))) = dom (todoInputs s)"
  by (cases r) (simp_all add: deleteGroup_def run_simps)

theorem deleteGroup_keeps_inputs_witness:
  "groups (run (typed_todo [mockGroup] (ascii ''1'') (ascii ''Buy groceries''))
     (deleteGroup (typed_todo [mockGroup] (ascii ''1'') (ascii ''Buy groceries''))
        (ascii ''1'') (Resolved ()))) = [] \<and>
   todoInputs (run (typed_todo [mockGroup] (ascii ''1'') (ascii ''Buy groceries''))
     (deleteGroup (typed_todo [mockGroup] (ascii ''1'') (ascii ''Buy groceries''))
        (ascii ''1'') (Resolved ()))) (ascii ''1'') = Some (ascii ''Buy groceries'')"
proof -
  let ?s = "typed_todo [mockGroup] (ascii ''1'') (ascii ''Buy groceries'')"
  have g: "groups (run ?s (deleteGroup ?s (ascii ''1'') (Resolved ()))) = []"
    by (simp add: deleteGroup_def run_simps typed_todo_simps mockGroup_def)
  from deleteGroup_keeps_inputs [of ?s "ascii ''1''" "Resolved ()"]
  have "todoInputs (run ?s (deleteGroup ?s (ascii ''1'') (Resolved ()))) (ascii ''1'') =
      todoInputs ?s (ascii ''1'')"
    by (elim conjE)
  with g show ?thesis by (simp add: typed_todo_simps)
qed

end
